theory Spec2Isabelle
  imports Complex_Main "HOL-Library.Sublist"
begin

chapter \<open>The authorization, workflow, audit and codec layer of the work-assignment app\<close>

text \<open>
  The development has two parts. The first embeds the TypeScript sources: the types of
  \<^verbatim>\<open>src/types/index.ts\<close>, the constants of \<^verbatim>\<open>src/lib/constants.ts\<close>, the role helper of
  \<^verbatim>\<open>src/lib/utils/helpers.ts\<close>, the Firestore data layer (\<^verbatim>\<open>lib/firebase/firestore.ts\<close>),
  the REST fallback codec (\<^verbatim>\<open>lib/firebase/firestore-rest.ts\<close>), the authentication context
  and the task detail page. The second part states and proves the properties.

  Conventions of the embedding.
  \<^item> A string-literal union type is a datatype; an interface is a record; an optional
    field is an \<open>option\<close>.
  \<^item> The document store is explicit state: one map per collection kind, from the full
    document path to the document. An \<^verbatim>\<open>async\<close> function that writes takes the store and
    returns the new one; a rejected promise is \<open>Inl\<close> of an error.
  \<^item> Every reading of the clock (\<^verbatim>\<open>Timestamp.now()\<close>) and every identifier generated by
    the store (\<^verbatim>\<open>doc(collection(...))\<close>) is a parameter of the function that makes it.
\<close>

section \<open>Part I: the embedding\<close>

subsection \<open>Plain JavaScript values and Firestore wire values\<close>

text \<open>
  A JavaScript number is a double. The model keeps the finite numbers as rationals (every
  finite double is one), and the three non-finite values. Negative zero is not
  distinguished from zero (\<^verbatim>\<open>-0 === 0\<close>).
\<close>

datatype jsnumber = Finite rat | NaN | PosInfinity | NegInfinity

text \<open>
  The values the codec receives (\<^verbatim>\<open>unknown\<close>): \<^verbatim>\<open>undefined\<close>, \<^verbatim>\<open>null\<close>, strings, numbers,
  booleans, \<^verbatim>\<open>Date\<close> objects, arrays and plain objects. A \<^verbatim>\<open>Date\<close> holds a time value in
  milliseconds since the epoch, or none (\<^verbatim>\<open>Invalid Date\<close>). An object is the list of its
  own enumerable properties in the order of \<^verbatim>\<open>Object.entries\<close>; its keys are distinct.
\<close>

datatype jsval =
    JUndefined
  | JNull
  | JString string
  | JNumber jsnumber
  | JBoolean bool
  | JDate "int option"
  | JArray "jsval list"
  | JObject "(string \<times> jsval) list"


subsection \<open>Domain types (src/types/index.ts)\<close>

datatype UserRole = admin | manager | employee
datatype UserStatus = pending | active | disabled

text \<open>\<^verbatim>\<open>'backlog' | 'in_progress' | 'blocked' | 'done'\<close>; the last is written \<open>status_done\<close>.\<close>

datatype TaskStatus = backlog | in_progress | blocked | status_done
datatype TaskPriority = low | medium | high | urgent
datatype ProjectStatus = project_active | project_completed | project_archived

text \<open>A JavaScript \<^verbatim>\<open>Date\<close> from a form: milliseconds since the epoch.\<close>

type_synonym Date = int

text \<open>Firestore's \<^verbatim>\<open>Timestamp\<close>, and \<^verbatim>\<open>Timestamp.fromDate\<close>.\<close>

datatype Timestamp = Timestamp (seconds: int) (nanoseconds: int)

definition Timestamp_fromDate :: "Date \<Rightarrow> Timestamp" where
  "Timestamp_fromDate d = Timestamp (d div 1000) ((d mod 1000) * 1000000)"

record User =
  user_id :: string
  user_orgId :: string
  user_email :: string
  user_displayName :: string
  user_role :: UserRole
  user_status :: UserStatus
  managedTeamIds :: "string list"
  managedProjectIds :: "string list"
  teamIds :: "string list"
  projectIds :: "string list"
  user_createdAt :: Timestamp
  user_updatedAt :: Timestamp
  user_createdBy :: string
  lastLoginAt :: "Timestamp option"

record AuthUser =
  uid :: string
  auth_email :: "string option"
  auth_displayName :: "string option"
  photoURL :: "string option"

text \<open>\<^verbatim>\<open>interface AppUser extends User { authUser: AuthUser }\<close>\<close>

record AppUser = User +
  authUser :: AuthUser

record Team =
  team_id :: string
  team_orgId :: string
  team_name :: string
  team_description :: "string option"
  team_managerIds :: "string list"
  team_memberIds :: "string list"
  team_createdAt :: Timestamp
  team_updatedAt :: Timestamp
  team_createdBy :: string

record Project =
  project_id :: string
  project_orgId :: string
  project_name :: string
  project_description :: "string option"
  project_teamId :: "string option"
  project_managerIds :: "string list"
  project_memberIds :: "string list"
  project_status :: ProjectStatus
  project_startDate :: "Timestamp option"
  project_endDate :: "Timestamp option"
  project_createdAt :: Timestamp
  project_updatedAt :: Timestamp
  project_createdBy :: string

record ChecklistItem =
  item_id :: string
  item_text :: string
  item_completed :: bool
  item_completedAt :: "Timestamp option"
  item_completedBy :: "string option"

record AttachmentMeta =
  attachment_id :: string
  fileName :: string
  fileSize :: nat
  mimeType :: string
  storagePath :: string
  uploadedBy :: string
  uploadedAt :: Timestamp

record Task =
  task_id :: string
  task_orgId :: string
  task_title :: string
  task_description :: "string option"
  task_projectId :: "string option"
  task_teamId :: "string option"
  task_assigneeIds :: "string list"
  task_status :: TaskStatus
  task_priority :: TaskPriority
  task_dueDate :: "Timestamp option"
  task_tags :: "string list"
  task_checklistItems :: "ChecklistItem list option"
  task_attachments :: "AttachmentMeta list option"
  task_createdBy :: string
  task_createdAt :: Timestamp
  task_updatedAt :: Timestamp
  task_completedAt :: "Timestamp option"

datatype AuditActionType =
    user_created | user_disabled | user_role_changed
  | team_created | team_updated | team_deleted
  | project_created | project_updated | project_deleted
  | task_created | task_updated | task_deleted

datatype AuditEntityType = entity_user | entity_team | entity_project | entity_task

text \<open>
  \<^verbatim>\<open>changes?: Record<string, { before: unknown; after: unknown }>\<close>: a list of fields, each
  with its pair \<open>(before, after)\<close>.
\<close>

record AuditLog =
  log_id :: string
  log_orgId :: string
  actorId :: string
  actorEmail :: string
  actionType :: AuditActionType
  entityType :: AuditEntityType
  entityId :: string
  entityName :: "string option"
  changes :: "(string \<times> jsval \<times> jsval) list option"
  ipAddress :: "string option"
  userAgent :: "string option"
  log_createdAt :: Timestamp






text \<open>
  \<^verbatim>\<open>interface UpdateTaskData\<close>: every field optional. \<^verbatim>\<open>dueDate?: Date | null\<close> has three
  shapes: absent (\<open>None\<close>), \<^verbatim>\<open>null\<close> (\<open>Some None\<close>) and a date.
\<close>

record UpdateTaskData =
  upd_title :: "string option"
  upd_description :: "string option"
  upd_assigneeIds :: "string list option"
  upd_status :: "TaskStatus option"
  upd_priority :: "TaskPriority option"
  upd_dueDate :: "Date option option"
  upd_tags :: "string list option"
  upd_checklistItems :: "ChecklistItem list option"
  upd_attachments :: "AttachmentMeta list option"

subsection \<open>Constants (src/lib/constants.ts)\<close>

definition APP_CONFIG_defaultOrgId :: string where
  "APP_CONFIG_defaultOrgId = ''default-org''"

fun TASK_STATUS_TRANSITIONS :: "TaskStatus \<Rightarrow> TaskStatus list" where
  "TASK_STATUS_TRANSITIONS backlog = [in_progress, status_done]"
| "TASK_STATUS_TRANSITIONS in_progress = [blocked, status_done]"
| "TASK_STATUS_TRANSITIONS blocked = [in_progress]"
| "TASK_STATUS_TRANSITIONS status_done = []"

text \<open>\<^verbatim>\<open>USER_ROLES[role].level\<close>\<close>

fun USER_ROLES_level :: "UserRole \<Rightarrow> nat" where
  "USER_ROLES_level admin = 3"
| "USER_ROLES_level manager = 2"
| "USER_ROLES_level employee = 1"

subsection \<open>The role helper (src/lib/utils/helpers.ts)\<close>

fun roleHierarchy :: "UserRole \<Rightarrow> nat" where
  "roleHierarchy employee = 1"
| "roleHierarchy manager = 2"
| "roleHierarchy admin = 3"

definition hasMinimumRole :: "UserRole \<Rightarrow> UserRole \<Rightarrow> bool" where
  "hasMinimumRole userRole requiredRole \<longleftrightarrow> roleHierarchy userRole \<ge> roleHierarchy requiredRole"

subsection \<open>The hooks of the authentication context\<close>

text \<open>The argument is the context's \<^verbatim>\<open>user: AppUser | null\<close>.\<close>

definition useIsAdmin :: "AppUser option \<Rightarrow> bool" where
  "useIsAdmin user = (case user of None \<Rightarrow> False | Some u \<Rightarrow> user_role u = admin)"

definition useIsManager :: "AppUser option \<Rightarrow> bool" where
  "useIsManager user =
     (case user of None \<Rightarrow> False | Some u \<Rightarrow> user_role u = manager \<or> user_role u = admin)"

definition useCanManageTeam :: "AppUser option \<Rightarrow> string \<Rightarrow> bool" where
  "useCanManageTeam user teamId =
     (case user of
        None \<Rightarrow> False
      | Some u \<Rightarrow>
          if user_role u = admin then True
          else if user_role u = manager then teamId \<in> set (managedTeamIds u)
          else False)"

definition useCanManageProject :: "AppUser option \<Rightarrow> string \<Rightarrow> bool" where
  "useCanManageProject user projectId =
     (case user of
        None \<Rightarrow> False
      | Some u \<Rightarrow>
          if user_role u = admin then True
          else if user_role u = manager then projectId \<in> set (managedProjectIds u)
          else False)"

subsection \<open>The document store and its paths (lib/firebase/firestore.ts)\<close>




definition getTasksPath :: "string \<Rightarrow> string" where
  "getTasksPath orgId = ''orgs/'' @ orgId @ ''/tasks''"






text \<open>\<^verbatim>\<open>doc(db, collectionPath, id)\<close>: the reference of a document is its full path.\<close>

definition doc :: "string \<Rightarrow> string \<Rightarrow> string" where
  "doc collectionPath docId = collectionPath @ ''/'' @ docId"

text \<open>
  The store, by document path. A stored document has no \<^verbatim>\<open>id\<close> field of its own: a read
  returns \<^verbatim>\<open>{ id: docSnap.id, ...docSnap.data() }\<close>, which the model writes as an update
  of the record's id field with the id of the reference. A field whose value is
  \<^verbatim>\<open>undefined\<close> or \<^verbatim>\<open>null\<close> is an absent field (\<open>None\<close>).
\<close>

record Store =
  users :: "string \<rightharpoonup> User"
  teams :: "string \<rightharpoonup> Team"
  projects :: "string \<rightharpoonup> Project"
  tasks :: "string \<rightharpoonup> Task"
  auditLogs :: "string \<rightharpoonup> AuditLog"

text \<open>\<^verbatim>\<open>updateDoc\<close> and a batched \<^verbatim>\<open>update\<close> reject when the document does not exist.\<close>

datatype FirestoreError = NotFound string


subsubsection \<open>Users\<close>








subsubsection \<open>Write batches\<close>




subsubsection \<open>Teams and projects\<close>



subsubsection \<open>Audit logs\<close>


subsubsection \<open>Tasks\<close>

definition getTaskById :: "string \<Rightarrow> string \<Rightarrow> Store \<Rightarrow> Task option" where
  "getTaskById orgId taskId st =
     (case tasks st (doc (getTasksPath orgId) taskId) of
        None \<Rightarrow> None
      | Some d \<Rightarrow> Some (d\<lparr>task_id := taskId\<rparr>))"


text \<open>
  The spread \<^verbatim>\<open>{ ...data, updatedAt: Timestamp.now() }\<close> of \<^verbatim>\<open>updateTask\<close>, applied to the
  stored document by \<^verbatim>\<open>updateDoc\<close>: each field present in \<open>data\<close> replaces the stored one.
  A \<^verbatim>\<open>null\<close> due date clears the field, a date is converted by \<^verbatim>\<open>Timestamp.fromDate\<close>.
\<close>

definition applyUpdateTaskData :: "UpdateTaskData \<Rightarrow> Task \<Rightarrow> Task" where
  "applyUpdateTaskData data t =
     t\<lparr> task_title := (case upd_title data of Some x \<Rightarrow> x | None \<Rightarrow> task_title t),
        task_description :=
          (case upd_description data of Some x \<Rightarrow> Some x | None \<Rightarrow> task_description t),
        task_assigneeIds :=
          (case upd_assigneeIds data of Some x \<Rightarrow> x | None \<Rightarrow> task_assigneeIds t),
        task_status := (case upd_status data of Some x \<Rightarrow> x | None \<Rightarrow> task_status t),
        task_priority := (case upd_priority data of Some x \<Rightarrow> x | None \<Rightarrow> task_priority t),
        task_dueDate :=
          (case upd_dueDate data of
             None \<Rightarrow> task_dueDate t
           | Some None \<Rightarrow> None
           | Some (Some d) \<Rightarrow> Some (Timestamp_fromDate d)),
        task_tags := (case upd_tags data of Some x \<Rightarrow> x | None \<Rightarrow> task_tags t),
        task_checklistItems :=
          (case upd_checklistItems data of Some x \<Rightarrow> Some x | None \<Rightarrow> task_checklistItems t),
        task_attachments :=
          (case upd_attachments data of Some x \<Rightarrow> Some x | None \<Rightarrow> task_attachments t) \<rparr>"

text \<open>
  \<^verbatim>\<open>updateTask\<close>. The clock is read once for \<^verbatim>\<open>updatedAt\<close> (\<open>tUpdated\<close>) and, when the
  new status is done, once more for \<^verbatim>\<open>completedAt\<close> (\<open>tCompleted\<close>).
\<close>

definition updateTask :: "Timestamp \<Rightarrow> Timestamp \<Rightarrow> string \<Rightarrow> string \<Rightarrow> UpdateTaskData \<Rightarrow> Store
    \<Rightarrow> FirestoreError + Store" where
  "updateTask tUpdated tCompleted orgId taskId data st =
     (let docRef = doc (getTasksPath orgId) taskId in
      case tasks st docRef of
        None \<Rightarrow> Inl (NotFound docRef)
      | Some t \<Rightarrow>
          let t1 = (applyUpdateTaskData data t)\<lparr>task_updatedAt := tUpdated\<rparr>;
              t2 = (if upd_status data = Some status_done
                    then t1\<lparr>task_completedAt := Some tCompleted\<rparr> else t1)
          in Inr (st\<lparr>tasks := (tasks st)(docRef \<mapsto> t2)\<rparr>))"

text \<open>
  \<^verbatim>\<open>updateTaskStatus\<close>. The parameter is declared \<^verbatim>\<open>status: string\<close>; its caller passes a
  \<^verbatim>\<open>TaskStatus\<close>, the type of the stored field.
\<close>

definition updateTaskStatus :: "Timestamp \<Rightarrow> Timestamp \<Rightarrow> string \<Rightarrow> string \<Rightarrow> TaskStatus \<Rightarrow> Store
    \<Rightarrow> FirestoreError + Store" where
  "updateTaskStatus tUpdated tCompleted orgId taskId status st =
     (let docRef = doc (getTasksPath orgId) taskId in
      case tasks st docRef of
        None \<Rightarrow> Inl (NotFound docRef)
      | Some t \<Rightarrow>
          let t1 = t\<lparr>task_status := status, task_updatedAt := tUpdated\<rparr>;
              t2 = (if status = status_done
                    then t1\<lparr>task_completedAt := Some tCompleted\<rparr> else t1)
          in Inr (st\<lparr>tasks := (tasks st)(docRef \<mapsto> t2)\<rparr>))"




subsection \<open>The REST fallback codec (lib/firebase/firestore-rest.ts)\<close>

text \<open>
  \<^verbatim>\<open>String(Math.floor(value))\<close>. For an integral number of magnitude below \<open>10\<^sup>2\<^sup>1\<close> the
  string is the decimal numeral, with a minus sign when negative; from \<open>10\<^sup>2\<^sup>1\<close> on it is
  the exponent form \<^verbatim>\<open>d.ddde+n\<close>. The digits are those of the exact value (JavaScript
  prints the shortest digits that identify the double, which read back as the same
  number). \<^verbatim>\<open>NumberToString\<close> is only applied to results of \<^verbatim>\<open>Math.floor\<close>.
\<close>

definition digitChar :: "nat \<Rightarrow> char" where
  "digitChar d = ''0123456789'' ! d"

fun digits :: "nat \<Rightarrow> string" where
  "digits n = (if n < 10 then [digitChar n] else digits (n div 10) @ [digitChar (n mod 10)])"

declare digits.simps [simp del]

definition decimalString :: "int \<Rightarrow> string" where
  "decimalString i = (if i < 0 then CHR ''-'' # digits (nat (- i)) else digits (nat i))"

definition exponentString :: "int \<Rightarrow> string" where
  "exponentString i =
     (let ds = digits (nat \<bar>i\<bar>);
          significant = rev (dropWhile (\<lambda>c. c = CHR ''0'') (rev ds));
          mantissa = (case significant of
                        [] \<Rightarrow> []
                      | [d] \<Rightarrow> [d]
                      | d # rest \<Rightarrow> d # CHR ''.'' # rest)
      in (if i < 0 then ''-'' else []) @ mantissa @ ''e+'' @ digits (length ds - 1))"

fun Math_floor :: "jsnumber \<Rightarrow> jsnumber" where
  "Math_floor (Finite r) = Finite (of_int \<lfloor>r\<rfloor>)"
| "Math_floor NaN = NaN"
| "Math_floor PosInfinity = PosInfinity"
| "Math_floor NegInfinity = NegInfinity"

fun NumberToString :: "jsnumber \<Rightarrow> string" where
  "NumberToString (Finite r) =
     (if \<bar>\<lfloor>r\<rfloor>\<bar> < 10 ^ 21 then decimalString \<lfloor>r\<rfloor> else exponentString \<lfloor>r\<rfloor>)"
| "NumberToString NaN = ''NaN''"
| "NumberToString PosInfinity = ''Infinity''"
| "NumberToString NegInfinity = ''-Infinity''"

text \<open>
  \<^verbatim>\<open>parseInt(s, 10)\<close>: leading white space is skipped, one sign is read, then the longest
  run of decimal digits; without a digit the result is \<^verbatim>\<open>NaN\<close>.
\<close>

definition isWhiteSpace :: "char \<Rightarrow> bool" where
  "isWhiteSpace c \<longleftrightarrow> (of_char c :: nat) \<in> {9, 10, 11, 12, 13, 32}"

definition isDigit :: "char \<Rightarrow> bool" where
  "isDigit c \<longleftrightarrow> 48 \<le> (of_char c :: nat) \<and> (of_char c :: nat) \<le> 57"

definition digitsValue :: "string \<Rightarrow> nat" where
  "digitsValue ds = foldl (\<lambda>a c. 10 * a + (of_char c - 48)) 0 ds"

definition parseInt :: "string \<Rightarrow> jsnumber" where
  "parseInt s =
     (let s1 = dropWhile isWhiteSpace s;
          negative = (case s1 of c # r \<Rightarrow> c = CHR ''-'' | [] \<Rightarrow> False);
          s2 = (case s1 of c # r \<Rightarrow> if c = CHR ''-'' \<or> c = CHR ''+'' then r else s1 | [] \<Rightarrow> []);
          ds = takeWhile isDigit s2
      in if ds = [] then NaN
         else Finite (of_int ((if negative then - 1 else 1) * int (digitsValue ds))))"











subsection \<open>The authentication context and the dashboard layout\<close>








subsection \<open>The task detail page (app/(dashboard)/tasks/[id]/page.tsx)\<close>

text \<open>What the page reports with \<^verbatim>\<open>showError\<close>.\<close>

datatype PageError =
    TaskNotFound
  | AccessDenied
  | InvalidTransition TaskStatus TaskStatus
  | UpdateFailed

text \<open>\<^verbatim>\<open>user?.id || ''\<close>\<close>

definition userIdOrEmpty :: "AppUser option \<Rightarrow> string" where
  "userIdOrEmpty user = (case user of None \<Rightarrow> [] | Some u \<Rightarrow> user_id u)"

text \<open>
  \<^verbatim>\<open>loadTask\<close>: the task is read under \<^verbatim>\<open>APP_CONFIG.defaultOrgId\<close>; \<^verbatim>\<open>isManager\<close> is
  \<^verbatim>\<open>useIsManager()\<close> of the same user. On \<open>Inr\<close> the page keeps the task (\<^verbatim>\<open>setTask\<close>);
  on \<open>Inl\<close> it shows the error and leaves for the task list, and renders nothing of the
  task (\<^verbatim>\<open>if (!task) return null\<close>).
\<close>

definition loadTask :: "AppUser option \<Rightarrow> string \<Rightarrow> Store \<Rightarrow> PageError + Task" where
  "loadTask user taskId st =
     (case getTaskById APP_CONFIG_defaultOrgId taskId st of
        None \<Rightarrow> Inl TaskNotFound
      | Some taskData \<Rightarrow>
          if \<not> useIsManager user \<and> userIdOrEmpty user \<notin> set (task_assigneeIds taskData)
          then Inl AccessDenied
          else Inr taskData)"

definition isAssignee :: "AppUser option \<Rightarrow> Task \<Rightarrow> bool" where
  "isAssignee user task \<longleftrightarrow> userIdOrEmpty user \<in> set (task_assigneeIds task)"

definition canEdit :: "AppUser option \<Rightarrow> Task \<Rightarrow> bool" where
  "canEdit user task \<longleftrightarrow> useIsManager user \<or> isAssignee user task"

definition canChangeStatus :: "AppUser option \<Rightarrow> Task \<Rightarrow> bool" where
  "canChangeStatus user task \<longleftrightarrow> canEdit user task \<and> task_status task \<noteq> status_done"

text \<open>
  \<^verbatim>\<open>handleStatusChange\<close>, on the page's task state and the store. Without a task it
  returns at once. A request outside the table is reported and nothing is written. An
  accepted request calls \<^verbatim>\<open>updateTaskStatus\<close>; when that rejects, the page reports
  \<^verbatim>\<open>'Failed to update status'\<close> and keeps its task.
\<close>

definition handleStatusChange :: "Timestamp \<Rightarrow> Timestamp \<Rightarrow> TaskStatus \<Rightarrow> Task option \<times> Store
    \<Rightarrow> PageError option \<times> Task option \<times> Store" where
  "handleStatusChange tUpdated tCompleted newStatus page =
     (case page of
        (None, st) \<Rightarrow> (None, None, st)
      | (Some task, st) \<Rightarrow>
          let allowedTransitions = TASK_STATUS_TRANSITIONS (task_status task) in
          if newStatus \<notin> set allowedTransitions
          then (Some (InvalidTransition (task_status task) newStatus), Some task, st)
          else
            (case updateTaskStatus tUpdated tCompleted APP_CONFIG_defaultOrgId (task_id task)
                    newStatus st of
               Inr st' \<Rightarrow> (None, Some (task\<lparr>task_status := newStatus\<rparr>), st')
             | Inl e \<Rightarrow> (Some UpdateFailed, Some task, st)))"

subsection \<open>Example data\<close>

text \<open>Concrete inputs on which the theorems of the second part are run.\<close>

definition exampleTask :: "TaskStatus \<Rightarrow> Task" where
  "exampleTask s =
     \<lparr> task_id = ''t1'', task_orgId = ''default-org'', task_title = ''Quarterly report'',
       task_description = None, task_projectId = None, task_teamId = None,
       task_assigneeIds = [''u7''], task_status = s, task_priority = medium,
       task_dueDate = None, task_tags = [], task_checklistItems = None,
       task_attachments = None, task_createdBy = ''m1'',
       task_createdAt = Timestamp 1700000000 0, task_updatedAt = Timestamp 1700000000 0,
       task_completedAt = (if s = status_done then Some (Timestamp 1700000600 0) else None) \<rparr>"

definition exampleStore :: "TaskStatus \<Rightarrow> Store" where
  "exampleStore s =
     \<lparr> users = Map.empty, teams = Map.empty, projects = Map.empty,
       tasks = [''orgs/default-org/tasks/t1'' \<mapsto> exampleTask s],
       auditLogs = Map.empty \<rparr>"

definition exampleUser :: "string \<Rightarrow> string \<Rightarrow> UserRole \<Rightarrow> UserStatus \<Rightarrow> AppUser" where
  "exampleUser userId orgId r s =
     \<lparr> user_id = userId, user_orgId = orgId, user_email = ''someone@company.com'',
       user_displayName = ''Someone'', user_role = r, user_status = s,
       managedTeamIds = [], managedProjectIds = [], teamIds = [], projectIds = [],
       user_createdAt = Timestamp 1700000000 0, user_updatedAt = Timestamp 1700000000 0,
       user_createdBy = ''root'', lastLoginAt = None,
       authUser = \<lparr> uid = userId, auth_email = Some ''someone@company.com'',
                    auth_displayName = None, photoURL = None \<rparr> \<rparr>"












section \<open>Part II: the properties\<close>

subsection \<open>The role hierarchy\<close>

lemma roleHierarchy_inj: "roleHierarchy r1 = roleHierarchy r2 \<Longrightarrow> r1 = r2"
  by (cases r1; cases r2; simp)

lemma hasMinimumRole_table:
  "hasMinimumRole u r \<longleftrightarrow>
     (r = employee \<or> (r = manager \<and> u \<noteq> employee) \<or> (r = admin \<and> u = admin))"
  by (cases u; cases r; simp add: hasMinimumRole_def)




lemma role_le_cases:
  "roleHierarchy r1 \<le> roleHierarchy r2 \<longleftrightarrow> r1 = employee \<or> r2 = admin \<or> r1 = r2"
  by (cases r1; cases r2; simp)

text \<open>
  C7. The ranks are employee = 1, manager = 2, admin = 3 (the same levels as
  \<^verbatim>\<open>USER_ROLES\<close>), distinct roles have distinct ranks, and \<^verbatim>\<open>hasMinimumRole\<close> passes exactly
  when the actor's rank is at least the required one. Consequently, when the rank of
  \<open>r1\<close> is at most the rank of \<open>r2\<close>, every check that passes for an actor of role \<open>r1\<close>
  passes for the same actor with role \<open>r2\<close>: the minimum-role check, the four hooks of the
  authentication context, and the task page's edit and access checks.
\<close>

theorem role_hierarchy_monotone:
  "roleHierarchy employee = 1 \<and> roleHierarchy manager = 2 \<and> roleHierarchy admin = 3
   \<and> USER_ROLES_level r = roleHierarchy r
   \<and> (roleHierarchy r = roleHierarchy r' \<longrightarrow> r = r')
   \<and> (hasMinimumRole userRole requiredRole
        \<longleftrightarrow> roleHierarchy userRole \<ge> roleHierarchy requiredRole)
   \<and> (roleHierarchy r1 \<le> roleHierarchy r2 \<longrightarrow>
        (hasMinimumRole r1 requiredRole \<longrightarrow> hasMinimumRole r2 requiredRole)
      \<and> (useIsAdmin (Some (u\<lparr>user_role := r1\<rparr>)) \<longrightarrow> useIsAdmin (Some (u\<lparr>user_role := r2\<rparr>)))
      \<and> (useIsManager (Some (u\<lparr>user_role := r1\<rparr>))
           \<longrightarrow> useIsManager (Some (u\<lparr>user_role := r2\<rparr>)))
      \<and> (useCanManageTeam (Some (u\<lparr>user_role := r1\<rparr>)) teamId
           \<longrightarrow> useCanManageTeam (Some (u\<lparr>user_role := r2\<rparr>)) teamId)
      \<and> (useCanManageProject (Some (u\<lparr>user_role := r1\<rparr>)) projectId
           \<longrightarrow> useCanManageProject (Some (u\<lparr>user_role := r2\<rparr>)) projectId)
      \<and> (canEdit (Some (u\<lparr>user_role := r1\<rparr>)) task
           \<longrightarrow> canEdit (Some (u\<lparr>user_role := r2\<rparr>)) task)
      \<and> (loadTask (Some (u\<lparr>user_role := r1\<rparr>)) taskId st = Inr task
           \<longrightarrow> loadTask (Some (u\<lparr>user_role := r2\<rparr>)) taskId st = Inr task))"
proof -
  have ranks: "roleHierarchy employee = 1 \<and> roleHierarchy manager = 2 \<and> roleHierarchy admin = 3"
    by simp
  have levels: "USER_ROLES_level r = roleHierarchy r"
    by (cases r) simp_all
  have inj: "roleHierarchy r = roleHierarchy r' \<longrightarrow> r = r'"
    using roleHierarchy_inj by blast
  have chk: "hasMinimumRole userRole requiredRole
      \<longleftrightarrow> roleHierarchy userRole \<ge> roleHierarchy requiredRole"
    by (simp add: hasMinimumRole_def)
  have mono: "roleHierarchy r1 \<le> roleHierarchy r2 \<longrightarrow>
        (hasMinimumRole r1 requiredRole \<longrightarrow> hasMinimumRole r2 requiredRole)
      \<and> (useIsAdmin (Some (u\<lparr>user_role := r1\<rparr>)) \<longrightarrow> useIsAdmin (Some (u\<lparr>user_role := r2\<rparr>)))
      \<and> (useIsManager (Some (u\<lparr>user_role := r1\<rparr>))
           \<longrightarrow> useIsManager (Some (u\<lparr>user_role := r2\<rparr>)))
      \<and> (useCanManageTeam (Some (u\<lparr>user_role := r1\<rparr>)) teamId
           \<longrightarrow> useCanManageTeam (Some (u\<lparr>user_role := r2\<rparr>)) teamId)
      \<and> (useCanManageProject (Some (u\<lparr>user_role := r1\<rparr>)) projectId
           \<longrightarrow> useCanManageProject (Some (u\<lparr>user_role := r2\<rparr>)) projectId)
      \<and> (canEdit (Some (u\<lparr>user_role := r1\<rparr>)) task
           \<longrightarrow> canEdit (Some (u\<lparr>user_role := r2\<rparr>)) task)
      \<and> (loadTask (Some (u\<lparr>user_role := r1\<rparr>)) taskId st = Inr task
           \<longrightarrow> loadTask (Some (u\<lparr>user_role := r2\<rparr>)) taskId st = Inr task)"
  proof
    assume le: "roleHierarchy r1 \<le> roleHierarchy r2"
    then consider "r1 = employee" | "r2 = admin" | "r1 = r2"
      using role_le_cases by blast
    then show "(hasMinimumRole r1 requiredRole \<longrightarrow> hasMinimumRole r2 requiredRole)
      \<and> (useIsAdmin (Some (u\<lparr>user_role := r1\<rparr>)) \<longrightarrow> useIsAdmin (Some (u\<lparr>user_role := r2\<rparr>)))
      \<and> (useIsManager (Some (u\<lparr>user_role := r1\<rparr>))
           \<longrightarrow> useIsManager (Some (u\<lparr>user_role := r2\<rparr>)))
      \<and> (useCanManageTeam (Some (u\<lparr>user_role := r1\<rparr>)) teamId
           \<longrightarrow> useCanManageTeam (Some (u\<lparr>user_role := r2\<rparr>)) teamId)
      \<and> (useCanManageProject (Some (u\<lparr>user_role := r1\<rparr>)) projectId
           \<longrightarrow> useCanManageProject (Some (u\<lparr>user_role := r2\<rparr>)) projectId)
      \<and> (canEdit (Some (u\<lparr>user_role := r1\<rparr>)) task
           \<longrightarrow> canEdit (Some (u\<lparr>user_role := r2\<rparr>)) task)
      \<and> (loadTask (Some (u\<lparr>user_role := r1\<rparr>)) taskId st = Inr task
           \<longrightarrow> loadTask (Some (u\<lparr>user_role := r2\<rparr>)) taskId st = Inr task)"
    proof cases
      case 1
      then show ?thesis
        using le
        by (auto simp: hasMinimumRole_def useIsAdmin_def useIsManager_def useCanManageTeam_def
            useCanManageProject_def canEdit_def isAssignee_def loadTask_def userIdOrEmpty_def
            split: option.splits if_splits)
    next
      case 2
      then show ?thesis
        by (cases r1; cases requiredRole)
           (auto simp: hasMinimumRole_def useIsAdmin_def useIsManager_def useCanManageTeam_def
            useCanManageProject_def canEdit_def isAssignee_def loadTask_def userIdOrEmpty_def
            split: option.splits if_splits)
    next
      case 3
      then show ?thesis by simp
    qed
  qed
  from ranks levels inj chk mono show ?thesis by blast
qed

theorem role_hierarchy_monotone_witness:
  "roleHierarchy manager \<le> roleHierarchy admin
   \<and> hasMinimumRole manager manager \<and> hasMinimumRole admin manager
   \<and> useCanManageTeam (Some ((exampleUser ''m1'' ''default-org'' manager active)
                                \<lparr>managedTeamIds := [''team-9'']\<rparr>)) ''team-9''
   \<and> useCanManageTeam (Some ((exampleUser ''m1'' ''default-org'' manager active)
                                \<lparr>managedTeamIds := [''team-9''], user_role := admin\<rparr>)) ''team-9''"
proof -
  let ?u = "(exampleUser ''m1'' ''default-org'' manager active)\<lparr>managedTeamIds := [''team-9'']\<rparr>"
  have le: "roleHierarchy manager \<le> roleHierarchy admin" by simp
  have chk: "hasMinimumRole manager manager" by (simp add: hasMinimumRole_def)
  have same: "?u\<lparr>user_role := manager\<rparr> = ?u" by (simp add: exampleUser_def)
  have can: "useCanManageTeam (Some (?u\<lparr>user_role := manager\<rparr>)) ''team-9''"
    by (simp add: useCanManageTeam_def exampleUser_def)
  from role_hierarchy_monotone
         [where ?r1.0 = manager and ?r2.0 = admin and requiredRole = manager and u = ?u
            and teamId = "''team-9''"]
       le chk can
  have "hasMinimumRole admin manager"
    and "useCanManageTeam (Some (?u\<lparr>user_role := admin\<rparr>)) ''team-9''"
    by blast+
  with le chk can same show ?thesis by simp
qed

subsection \<open>The task workflow\<close>

lemma updateTaskStatus_Some:
  assumes "tasks st (doc (getTasksPath orgId) taskId) = Some t"
  shows "updateTaskStatus tu tc orgId taskId s st =
           Inr (st\<lparr>tasks := (tasks st)(doc (getTasksPath orgId) taskId \<mapsto>
                  t\<lparr>task_status := s, task_updatedAt := tu,
                    task_completedAt := (if s = status_done then Some tc else task_completedAt t)\<rparr>)\<rparr>)"
  using assms by (simp add: updateTaskStatus_def Let_def)

lemma updateTaskStatus_None:
  assumes "tasks st (doc (getTasksPath orgId) taskId) = None"
  shows "updateTaskStatus tu tc orgId taskId s st = Inl (NotFound (doc (getTasksPath orgId) taskId))"
  using assms by (simp add: updateTaskStatus_def Let_def)


lemma updateTask_None:
  assumes "tasks st (doc (getTasksPath orgId) taskId) = None"
  shows "updateTask tu tc orgId taskId d st = Inl (NotFound (doc (getTasksPath orgId) taskId))"
  using assms by (simp add: updateTask_def Let_def)

text \<open>
  C1. With a task on the page, \<^verbatim>\<open>handleStatusChange\<close> rejects a request as an invalid
  transition exactly when the requested status is not in the table's list for the
  task's current status; the table is backlog to in_progress or done, in_progress to
  blocked or done, blocked to in_progress, done to nothing. A request for the current
  status and any request on a done task are rejected, and a rejected request leaves the
  page and the store as they were. A request in the table, on a task that the store
  has, is carried out: the page's task and the stored task take the requested status.
\<close>

theorem status_change_accepted_iff_in_table:
  "(fst (handleStatusChange tu tc s (Some t, st)) = Some (InvalidTransition (task_status t) s)
      \<longleftrightarrow> s \<notin> set (TASK_STATUS_TRANSITIONS (task_status t)))
   \<and> set (TASK_STATUS_TRANSITIONS backlog) = {in_progress, status_done}
   \<and> set (TASK_STATUS_TRANSITIONS in_progress) = {blocked, status_done}
   \<and> set (TASK_STATUS_TRANSITIONS blocked) = {in_progress}
   \<and> set (TASK_STATUS_TRANSITIONS status_done) = {}
   \<and> (s \<notin> set (TASK_STATUS_TRANSITIONS (task_status t)) \<longrightarrow>
        handleStatusChange tu tc s (Some t, st)
          = (Some (InvalidTransition (task_status t) s), Some t, st))
   \<and> (s = task_status t \<or> task_status t = status_done \<longrightarrow>
        fst (handleStatusChange tu tc s (Some t, st))
          = Some (InvalidTransition (task_status t) s))
   \<and> (s \<in> set (TASK_STATUS_TRANSITIONS (task_status t))
       \<and> tasks st (doc (getTasksPath APP_CONFIG_defaultOrgId) (task_id t)) = Some d \<longrightarrow>
        (\<exists>st'. handleStatusChange tu tc s (Some t, st)
                 = (None, Some (t\<lparr>task_status := s\<rparr>), st')
           \<and> map_option task_status
                 (tasks st' (doc (getTasksPath APP_CONFIG_defaultOrgId) (task_id t))) = Some s))"
proof -
  have same: "x \<notin> set (TASK_STATUS_TRANSITIONS x)" for x
    by (cases x) simp_all
  have iff: "fst (handleStatusChange tu tc s (Some t, st))
        = Some (InvalidTransition (task_status t) s)
      \<longleftrightarrow> s \<notin> set (TASK_STATUS_TRANSITIONS (task_status t))"
    by (simp add: handleStatusChange_def Let_def split: sum.splits)
  have rej: "s \<notin> set (TASK_STATUS_TRANSITIONS (task_status t)) \<longrightarrow>
        handleStatusChange tu tc s (Some t, st)
          = (Some (InvalidTransition (task_status t) s), Some t, st)"
    by (simp add: handleStatusChange_def Let_def)
  have special: "s = task_status t \<or> task_status t = status_done \<longrightarrow>
        fst (handleStatusChange tu tc s (Some t, st))
          = Some (InvalidTransition (task_status t) s)"
    using same [of "task_status t"] by (auto simp: handleStatusChange_def Let_def)
  have table: "set (TASK_STATUS_TRANSITIONS backlog) = {in_progress, status_done}
   \<and> set (TASK_STATUS_TRANSITIONS in_progress) = {blocked, status_done}
   \<and> set (TASK_STATUS_TRANSITIONS blocked) = {in_progress}
   \<and> set (TASK_STATUS_TRANSITIONS status_done) = {}"
    by simp
  have acc: "s \<in> set (TASK_STATUS_TRANSITIONS (task_status t))
       \<and> tasks st (doc (getTasksPath APP_CONFIG_defaultOrgId) (task_id t)) = Some d \<longrightarrow>
        (\<exists>st'. handleStatusChange tu tc s (Some t, st)
                 = (None, Some (t\<lparr>task_status := s\<rparr>), st')
           \<and> map_option task_status
                 (tasks st' (doc (getTasksPath APP_CONFIG_defaultOrgId) (task_id t))) = Some s)"
    by (auto simp: handleStatusChange_def Let_def updateTaskStatus_Some)
  from iff rej special table acc show ?thesis by blast
qed


lemma example_task_ref: "doc (getTasksPath APP_CONFIG_defaultOrgId) ''t1'' = ''orgs/default-org/tasks/t1''"
  by (simp add: doc_def getTasksPath_def APP_CONFIG_defaultOrgId_def)

theorem status_change_accepted_iff_in_table_witness:
  "handleStatusChange (Timestamp 1700000700 0) (Timestamp 1700000701 0) status_done
       (Some (exampleTask blocked), exampleStore blocked)
     = (Some (InvalidTransition blocked status_done), Some (exampleTask blocked),
        exampleStore blocked)
   \<and> fst (handleStatusChange (Timestamp 1700000700 0) (Timestamp 1700000701 0) status_done
            (Some (exampleTask status_done), exampleStore status_done))
     = Some (InvalidTransition status_done status_done)
   \<and> (\<exists>st'. handleStatusChange (Timestamp 1700000700 0) (Timestamp 1700000701 0) status_done
                (Some (exampleTask backlog), exampleStore backlog)
              = (None, Some ((exampleTask backlog)\<lparr>task_status := status_done\<rparr>), st')
          \<and> map_option task_status (tasks st' ''orgs/default-org/tasks/t1'') = Some status_done)"
proof -
  let ?tu = "Timestamp 1700000700 0" and ?tc = "Timestamp 1700000701 0"
  have st: "task_status (exampleTask x) = x" and tid: "task_id (exampleTask x) = ''t1''" for x
    by (simp_all add: exampleTask_def)
  have a: "status_done \<notin> set (TASK_STATUS_TRANSITIONS (task_status (exampleTask blocked)))"
    by (simp add: st)
  have b: "status_done = task_status (exampleTask status_done)
      \<or> task_status (exampleTask status_done) = status_done"
    by (simp add: st)
  have c: "status_done \<in> set (TASK_STATUS_TRANSITIONS (task_status (exampleTask backlog)))
      \<and> tasks (exampleStore backlog)
           (doc (getTasksPath APP_CONFIG_defaultOrgId) (task_id (exampleTask backlog)))
         = Some (exampleTask backlog)"
    by (simp add: st tid example_task_ref exampleStore_def)
  from a status_change_accepted_iff_in_table
         [of ?tu ?tc status_done "exampleTask blocked" "exampleStore blocked" undefined]
  have 1: "handleStatusChange ?tu ?tc status_done (Some (exampleTask blocked), exampleStore blocked)
     = (Some (InvalidTransition blocked status_done), Some (exampleTask blocked),
        exampleStore blocked)"
    by (simp add: st)
  from b status_change_accepted_iff_in_table
         [of ?tu ?tc status_done "exampleTask status_done" "exampleStore status_done" undefined]
  have 2: "fst (handleStatusChange ?tu ?tc status_done
                 (Some (exampleTask status_done), exampleStore status_done))
     = Some (InvalidTransition status_done status_done)"
    by (simp add: st)
  from c status_change_accepted_iff_in_table
         [of ?tu ?tc status_done "exampleTask backlog" "exampleStore backlog" "exampleTask backlog"]
  have 3: "\<exists>st'. handleStatusChange ?tu ?tc status_done
                (Some (exampleTask backlog), exampleStore backlog)
              = (None, Some ((exampleTask backlog)\<lparr>task_status := status_done\<rparr>), st')
          \<and> map_option task_status (tasks st' ''orgs/default-org/tasks/t1'') = Some status_done"
    by (simp add: tid example_task_ref)
  from 1 2 3 show ?thesis by blast
qed







subsection \<open>Access to a task\<close>



subsection \<open>Task creation\<close>



subsection \<open>Back-references on team and project creation\<close>














subsection \<open>Disabled accounts\<close>




subsection \<open>The codec round trip\<close>






























text \<open>
  The bound on the numbers is needed: \<open>10\<^sup>2\<^sup>1\<close> is encoded as \<^verbatim>\<open>1e+21\<close>, which
  \<^verbatim>\<open>parseInt\<close> reads as 1.
\<close>

lemma large_integer_not_reproduced:
  "parseInt (NumberToString (Math_floor (Finite (10 ^ 21)))) = Finite 1"
  by (simp add: exponentString_def digits.simps digitChar_def parseInt_def isWhiteSpace_def
      isDigit_def digitsValue_def Let_def)


subsection \<open>Organisation scoping of the paths\<close>







subsection \<open>Audit log entries\<close>



end
